theory Spec2Isabelle
  imports Main "HOL-Library.AList"
begin

section \<open>The classroom coordinator of backend/server.js\<close>

text \<open>
  The server keeps one object \<^verbatim>\<open>appState\<close> and registers one handler per Socket.IO
  event on every connecting socket. Each handler becomes a function from the state to the
  new state and the list of effects it performs, in the order of the source. The set of
  connected sockets (\<^verbatim>\<open>io.sockets.sockets\<close>) and the members of the room
  \<^verbatim>\<open>'classroom'\<close> belong to Socket.IO; they are fields of the state too, because
  \<^verbatim>\<open>kick_user\<close> reads the first and every broadcast is resolved against the second.
\<close>

subsection \<open>Data\<close>

type_synonym sid = string

datatype role = Student | Admin

fun role_str :: "role \<Rightarrow> string" where
  "role_str Student = ''student''"
| "role_str Admin = ''admin''"

text \<open>An entry of \<^verbatim>\<open>appState.users\<close>; \<open>peerId = None\<close> is JavaScript's \<^verbatim>\<open>null\<close>.\<close>

record user =
  name :: string
  role :: role
  streamActive :: bool
  canDraw :: bool
  inVideoCall :: bool
  peerId :: "string option"

text \<open>
  An entry of \<^verbatim>\<open>appState.chat\<close>. The source's fields \<^verbatim>\<open>id\<close> and \<^verbatim>\<open>role\<close> are
  \<open>msg_id\<close> and \<open>msg_role\<close> here.
\<close>

record chatMessage =
  msg_id :: string
  userId :: sid
  username :: string
  message :: string
  timestamp :: string
  msg_role :: role

text \<open>
  \<^verbatim>\<open>appState\<close> (\<open>admin\<close>, \<open>users\<close>, \<open>chat\<close>, \<open>drawingEnabled\<close>, \<open>adminCode\<close>) together
  with Socket.IO's connected sockets and the room. \<open>users\<close> is an association list in
  insertion order, as the keys of a JavaScript object are; it holds the properties the
  object has of its own. \<^verbatim>\<open>appState.users\<close> is a plain \<^verbatim>\<open>{}\<close>, so a lookup under a
  key it does not have goes on to \<^verbatim>\<open>Object.prototype\<close>; \<open>proto_canDraw\<close> is the
  property \<^verbatim>\<open>canDraw\<close> of \<^verbatim>\<open>Object.prototype\<close>, which does not exist when the server
  starts (\<open>None\<close>) and which \<^verbatim>\<open>set_user_draw\<close> can create.
\<close>

record server =
  admin :: "sid option"
  users :: "(sid \<times> user) list"
  chat :: "chatMessage list"
  drawingEnabled :: bool
  adminCode :: string
  sockets :: "sid set"
  classroom :: "sid set"
  proto_canDraw :: "bool option"

definition init :: server where
  "init = \<lparr>admin = None, users = [], chat = [], drawingEnabled = True,
           adminCode = ''teach123'', sockets = {}, classroom = {}, proto_canDraw = None\<rparr>"

text \<open>
  The property names of \<^verbatim>\<open>Object.prototype\<close>. Under each of them a plain object
  yields a function, and under \<^verbatim>\<open>__proto__\<close> it yields \<^verbatim>\<open>Object.prototype\<close>
  itself: truthy values all.
\<close>

definition object_prototype_keys :: "string list" where
  "object_prototype_keys =
     [''constructor'', ''__defineGetter__'', ''__defineSetter__'', ''hasOwnProperty'',
      ''__lookupGetter__'', ''__lookupSetter__'', ''isPrototypeOf'', ''propertyIsEnumerable'',
      ''toString'', ''valueOf'', ''__proto__'', ''toLocaleString'']"

text \<open>
  \<open>inherited st k\<close>: the registry has no entry \<open>k\<close> of its own and
  \<^verbatim>\<open>appState.users[k]\<close> is truthy all the same, by inheritance. The names that can
  ever be inherited are \<open>reserved_keys\<close>.
\<close>

definition inherited :: "server \<Rightarrow> string \<Rightarrow> bool" where
  "inherited st k \<longleftrightarrow>
     map_of (users st) k = None \<and>
     (k \<in> set object_prototype_keys \<or> (k = ''canDraw'' \<and> proto_canDraw st = Some True))"

definition reserved_keys :: "string list" where
  "reserved_keys = object_prototype_keys @ [''canDraw'']"

text \<open>
  The messages the server sends, one constructor per event name.
  \<open>User_updated_inherited k\<close> is the \<^verbatim>\<open>user_updated\<close> whose \<^verbatim>\<open>user\<close> is not a
  registry entry but the value \<^verbatim>\<open>appState.users\<close> inherits under \<open>k\<close>.
\<close>

datatype msg =
    Join_success role "(sid \<times> user) list" "chatMessage list" bool bool
  | User_joined sid user
  | Admin_set bool "string option"
  | New_admin sid user
  | Peers_in_room "(string \<times> string \<times> string) list"
  | Peer_joined string string string
  | Peer_left string
  | Session_ended string
  | User_left sid
  | New_message chatMessage
  | Message_deleted string
  | Draw_data "(string \<times> string) list"
  | Clear_canvas
  | Drawing_toggled bool
  | User_updated sid user
  | User_updated_inherited string
  | Kicked string
  | User_stream_status sid bool

text \<open>
  An effect is a message with the set of sockets it is sent to, or the timer of
  \<^verbatim>\<open>kick_user\<close> (\<^verbatim>\<open>setTimeout(() => targetSocket.disconnect(true), 100)\<close>), whose
  firing is a later \<open>Close\<close> event.
\<close>

datatype effect = Emit "sid set" msg | Disconnect_after nat sid

text \<open>\<^verbatim>\<open>socket.emit\<close>, \<^verbatim>\<open>socket.to('classroom').emit\<close> and \<^verbatim>\<open>io.to('classroom').emit\<close>.\<close>

definition socket_emit :: "sid \<Rightarrow> msg \<Rightarrow> effect" where
  "socket_emit s m = Emit {s} m"

definition socket_to :: "server \<Rightarrow> sid \<Rightarrow> msg \<Rightarrow> effect" where
  "socket_to st s m = Emit (classroom st - {s}) m"

definition io_to :: "server \<Rightarrow> msg \<Rightarrow> effect" where
  "io_to st m = Emit (classroom st) m"

text \<open>The messages a socket receives from a list of effects, in order.\<close>

fun received :: "sid \<Rightarrow> effect list \<Rightarrow> msg list" where
  "received c [] = []"
| "received c (Emit R m # es) = (if c \<in> R then m # received c es else received c es)"
| "received c (Disconnect_after d t # es) = received c es"

text \<open>
  JavaScript truthiness of a value that is \<^verbatim>\<open>null\<close> or a string: \<^verbatim>\<open>null\<close> and the
  empty string are falsy.
\<close>

fun truthy :: "string option \<Rightarrow> bool" where
  "truthy None = False"
| "truthy (Some s) = (s \<noteq> [])"

text \<open>\<^verbatim>\<open>Date.now().toString()\<close>: the decimal digits of a millisecond count.\<close>

definition digit_char :: "nat \<Rightarrow> char" where
  "digit_char d =
     (if d = 0 then CHR ''0'' else if d = 1 then CHR ''1'' else if d = 2 then CHR ''2''
      else if d = 3 then CHR ''3'' else if d = 4 then CHR ''4'' else if d = 5 then CHR ''5''
      else if d = 6 then CHR ''6'' else if d = 7 then CHR ''7'' else if d = 8 then CHR ''8''
      else CHR ''9'')"

fun toString :: "nat \<Rightarrow> string" where
  "toString n =
     (if n < 10 then [digit_char n] else toString (n div 10) @ [digit_char (n mod 10)])"

declare toString.simps [simp del]

datatype error = TypeError

subsection \<open>The handlers\<close>

text \<open>The state after \<^verbatim>\<open>// Reset app state\<close>.\<close>

definition reset :: "server \<Rightarrow> server" where
  "reset st = st\<lparr>admin := None, users := [], chat := [], drawingEnabled := True\<rparr>"

definition join_room :: "sid \<Rightarrow> string \<Rightarrow> string option \<Rightarrow> server \<Rightarrow> server \<times> effect list" where
  "join_room s nm code st =
     (let claim = (code = Some (adminCode st) \<and> \<not> truthy (admin st));
          r = (if claim then Admin else Student);
          st1 = (if claim then st\<lparr>admin := Some s\<rparr> else st);
          u = \<lparr>name = nm, role = r, streamActive = False, canDraw = True,
               inVideoCall = False, peerId = None\<rparr>;
          st2 = st1\<lparr>users := AList.update s u (users st1)\<rparr>;
          st3 = st2\<lparr>classroom := insert s (classroom st2)\<rparr>
      in (st3,
          [socket_emit s (Join_success r (users st3) (chat st3) (drawingEnabled st3) (r = Admin)),
           socket_to st3 s (User_joined s u)]))"

text \<open>
  \<^verbatim>\<open>appState.users[socket.id].role = 'admin'\<close> throws a TypeError when the socket has
  not joined; the handler has no \<^verbatim>\<open>try\<close>.
\<close>

definition set_admin :: "sid \<Rightarrow> string option \<Rightarrow> server \<Rightarrow> error + server \<times> effect list" where
  "set_admin s code st =
     (if code = Some (adminCode st) \<and> \<not> truthy (admin st) then
        (case map_of (users st) s of
           None \<Rightarrow> Inl TypeError
         | Some u \<Rightarrow>
             (let u' = u\<lparr>role := Admin\<rparr>;
                  st' = st\<lparr>admin := Some s, users := AList.update s u' (users st)\<rparr>
              in Inr (st', [socket_emit s (Admin_set True None),
                            socket_to st' s (New_admin s u')])))
      else Inr (st, [socket_emit s
                       (Admin_set False (Some ''Invalid code or admin already exists''))]))"

text \<open>
  One entry of the list \<^verbatim>\<open>peers\<close> of \<^verbatim>\<open>peer_ready\<close>: the filter
  \<^verbatim>\<open>id !== socket.id && !!u.peerId && u.peerId !== peerId\<close> and the map after it.
\<close>

fun peer_entry :: "sid \<Rightarrow> string \<Rightarrow> sid \<times> user \<Rightarrow> (string \<times> string \<times> string) list" where
  "peer_entry s p (i, v) =
     (case peerId v of
        None \<Rightarrow> []
      | Some q \<Rightarrow> if i \<noteq> s \<and> q \<noteq> [] \<and> q \<noteq> p then [(q, name v, role_str (role v))] else [])"

definition peer_ready :: "sid \<Rightarrow> string \<Rightarrow> server \<Rightarrow> server \<times> effect list" where
  "peer_ready s p st =
     (case map_of (users st) s of
        None \<Rightarrow> (st, [])
      | Some u \<Rightarrow>
          if peerId u = Some p then (st, [])
          else
            (let u' = u\<lparr>inVideoCall := True, peerId := Some p\<rparr>;
                 st' = st\<lparr>users := AList.update s u' (users st)\<rparr>;
                 peers = concat (map (peer_entry s p) (users st'))
             in (st', [socket_emit s (Peers_in_room peers),
                       socket_to st' s (Peer_joined p (name u') (role_str (role u')))])))"

definition peer_left :: "sid \<Rightarrow> string \<Rightarrow> server \<Rightarrow> server \<times> effect list" where
  "peer_left s p st =
     (case map_of (users st) s of
        None \<Rightarrow> (st, [])
      | Some u \<Rightarrow>
          if peerId u = Some p then
            (let u' = u\<lparr>inVideoCall := False, peerId := None\<rparr>;
                 st' = st\<lparr>users := AList.update s u' (users st)\<rparr>
             in (st', [socket_to st' s (Peer_left p)]))
          else (st, []))"

definition peer_joined ::
  "sid \<Rightarrow> string \<Rightarrow> string \<Rightarrow> string \<Rightarrow> server \<Rightarrow> server \<times> effect list" where
  "peer_joined s p userName userRole st =
     (case map_of (users st) s of
        None \<Rightarrow> (st, [])
      | Some u \<Rightarrow>
          (let u' = u\<lparr>inVideoCall := True, peerId := Some p\<rparr>;
               st' = st\<lparr>users := AList.update s u' (users st)\<rparr>
           in (st', [socket_to st' s (Peer_joined p userName userRole)])))"

text \<open>The handler of \<^verbatim>\<open>'disconnect'\<close>.\<close>

definition disconnect :: "sid \<Rightarrow> server \<Rightarrow> server \<times> effect list" where
  "disconnect s st =
     (case map_of (users st) s of
        None \<Rightarrow> (st, [])
      | Some u \<Rightarrow>
          (let e1 = (case peerId u of
                       None \<Rightarrow> []
                     | Some p \<Rightarrow> if p \<noteq> [] then [socket_to st s (Peer_left p)] else [])
           in if role u = Admin then
                (reset st, e1 @ [io_to st (Session_ended ''Admin left the session'')])
              else
                (st\<lparr>users := AList.delete s (users st)\<rparr>,
                 e1 @ [socket_to st s (User_left s)])))"

text \<open>
  \<^verbatim>\<open>socket.disconnect()\<close> and a closing transport: Socket.IO takes the socket out of
  its rooms and of \<^verbatim>\<open>io.sockets.sockets\<close>, then runs the \<^verbatim>\<open>'disconnect'\<close> handler;
  on a socket that is not connected it does nothing.
\<close>

definition close_socket :: "sid \<Rightarrow> server \<Rightarrow> server \<times> effect list" where
  "close_socket s st =
     (if s \<in> sockets st then
        disconnect s (st\<lparr>sockets := sockets st - {s}, classroom := classroom st - {s}\<rparr>)
      else (st, []))"

definition leave_session :: "sid \<Rightarrow> server \<Rightarrow> server \<times> effect list" where
  "leave_session s st =
     (let (st1, e1) =
            (case map_of (users st) s of
               None \<Rightarrow> (st, [])
             | Some u \<Rightarrow>
                 if role u = Admin then
                   (reset st, [io_to st (Session_ended ''Admin left the session'')])
                 else
                   (st\<lparr>users := AList.delete s (users st)\<rparr>, [socket_to st s (User_left s)]));
          (st2, e2) = close_socket s st1
      in (st2, e1 @ e2))"

text \<open>
  \<open>now\<close> is the value of \<^verbatim>\<open>Date.now()\<close> and \<open>stamp\<close> that of
  \<^verbatim>\<open>new Date().toISOString()\<close> when the handler runs.
\<close>

definition chat_message ::
  "sid \<Rightarrow> string \<Rightarrow> nat \<Rightarrow> string \<Rightarrow> server \<Rightarrow> server \<times> effect list" where
  "chat_message s body now stamp st =
     (case map_of (users st) s of
        None \<Rightarrow> (st, [])
      | Some u \<Rightarrow>
          (let m = \<lparr>msg_id = toString now, userId = s, username = name u,
                    message = body, timestamp = stamp, msg_role = role u\<rparr>
           in (st\<lparr>chat := chat st @ [m]\<rparr>, [io_to st (New_message m)])))"

definition delete_message :: "sid \<Rightarrow> string \<Rightarrow> server \<Rightarrow> server \<times> effect list" where
  "delete_message s messageId st =
     (case map_of (users st) s of
        None \<Rightarrow> (st, [])
      | Some u \<Rightarrow>
          if role u = Admin then
            (st\<lparr>chat := filter (\<lambda>m. msg_id m \<noteq> messageId) (chat st)\<rparr>,
             [io_to st (Message_deleted messageId)])
          else (st, []))"

text \<open>\<open>data\<close> is the payload object as its list of fields; \<^verbatim>\<open>{...data, userId: socket.id}\<close>.\<close>

definition draw_data :: "sid \<Rightarrow> (string \<times> string) list \<Rightarrow> server \<Rightarrow> server \<times> effect list" where
  "draw_data s data st =
     (case map_of (users st) s of
        None \<Rightarrow> (st, [])
      | Some u \<Rightarrow>
          if role u = Admin \<or> (drawingEnabled st \<and> canDraw u) then
            (st, [socket_to st s (Draw_data (AList.update ''userId'' s data))])
          else (st, []))"

definition clear_canvas :: "sid \<Rightarrow> server \<Rightarrow> server \<times> effect list" where
  "clear_canvas s st =
     (case map_of (users st) s of
        None \<Rightarrow> (st, [])
      | Some u \<Rightarrow> if role u = Admin then (st, [io_to st Clear_canvas]) else (st, []))"

definition toggle_draw :: "sid \<Rightarrow> bool \<Rightarrow> server \<Rightarrow> server \<times> effect list" where
  "toggle_draw s enabled st =
     (case map_of (users st) s of
        None \<Rightarrow> (st, [])
      | Some u \<Rightarrow>
          if role u = Admin then
            (st\<lparr>drawingEnabled := enabled\<rparr>, [io_to st (Drawing_toggled enabled)])
          else (st, []))"

text \<open>
  \<open>targetUserId\<close> comes from the client and is any string; \<open>cd\<close> is the value of
  \<^verbatim>\<open>!!canDraw\<close>. When the target is not an entry of the registry but an inherited
  value, the assignment \<^verbatim>\<open>appState.users[targetUserId].canDraw = !!canDraw\<close> lands on
  that value: on \<^verbatim>\<open>Object.prototype\<close> for \<^verbatim>\<open>__proto__\<close>, and otherwise on a function
  or on the primitive \<^verbatim>\<open>true\<close>, where it changes nothing the server reads.
\<close>

definition set_user_draw :: "sid \<Rightarrow> string \<Rightarrow> bool \<Rightarrow> server \<Rightarrow> server \<times> effect list" where
  "set_user_draw s targetUserId cd st =
     (case map_of (users st) s of
        None \<Rightarrow> (st, [])
      | Some u \<Rightarrow>
          if role u = Admin then
            (case map_of (users st) targetUserId of
               Some t \<Rightarrow>
                 (let t' = t\<lparr>canDraw := cd\<rparr>
                  in (st\<lparr>users := AList.update targetUserId t' (users st)\<rparr>,
                      [io_to st (User_updated targetUserId t')]))
             | None \<Rightarrow>
                 if inherited st targetUserId then
                   (if targetUserId = ''__proto__'' then st\<lparr>proto_canDraw := Some cd\<rparr> else st,
                    [io_to st (User_updated_inherited targetUserId)])
                 else (st, []))
          else (st, []))"

text \<open>
  \<^verbatim>\<open>io.sockets.sockets\<close> is a \<^verbatim>\<open>Map\<close>, so the socket lookup finds connected sockets
  only. In the fallback, \<^verbatim>\<open>delete appState.users[targetUserId]\<close> on an inherited name
  deletes nothing, and \<^verbatim>\<open>user_left\<close> is sent all the same.
\<close>

definition kick_user :: "sid \<Rightarrow> string \<Rightarrow> server \<Rightarrow> server \<times> effect list" where
  "kick_user s targetUserId st =
     (case map_of (users st) s of
        None \<Rightarrow> (st, [])
      | Some u \<Rightarrow>
          if role u = Admin then
            (if targetUserId \<in> sockets st then
               (st, [socket_emit targetUserId (Kicked ''Removed by admin''),
                     Disconnect_after 100 targetUserId])
             else
               (case map_of (users st) targetUserId of
                  Some t \<Rightarrow>
                    (st\<lparr>users := AList.delete targetUserId (users st)\<rparr>,
                     [io_to st (User_left targetUserId)])
                | None \<Rightarrow>
                    if inherited st targetUserId then (st, [io_to st (User_left targetUserId)])
                    else (st, [])))
          else (st, []))"

definition stream_status :: "sid \<Rightarrow> bool \<Rightarrow> server \<Rightarrow> server \<times> effect list" where
  "stream_status s active st =
     (case map_of (users st) s of
        None \<Rightarrow> (st, [])
      | Some u \<Rightarrow>
          (st\<lparr>users := AList.update s (u\<lparr>streamActive := active\<rparr>) (users st)\<rparr>,
           [socket_to st s (User_stream_status s active)]))"

subsection \<open>Events\<close>

text \<open>What a client can send: one constructor per \<^verbatim>\<open>socket.on\<close> of the source.\<close>

datatype request =
    On_join_room string "string option"
  | On_set_admin "string option"
  | On_peer_ready string
  | On_peer_left string
  | On_peer_joined string string string
  | On_leave_session
  | On_chat_message string nat string
  | On_delete_message string
  | On_draw_data "(string \<times> string) list"
  | On_clear_canvas
  | On_toggle_draw bool
  | On_set_user_draw string bool
  | On_kick_user string
  | On_stream_status bool

fun handle :: "sid \<Rightarrow> request \<Rightarrow> server \<Rightarrow> error + server \<times> effect list" where
  "handle s (On_join_room nm code) st = Inr (join_room s nm code st)"
| "handle s (On_set_admin code) st = set_admin s code st"
| "handle s (On_peer_ready p) st = Inr (peer_ready s p st)"
| "handle s (On_peer_left p) st = Inr (peer_left s p st)"
| "handle s (On_peer_joined p userName userRole) st = Inr (peer_joined s p userName userRole st)"
| "handle s On_leave_session st = Inr (leave_session s st)"
| "handle s (On_chat_message body now stamp) st = Inr (chat_message s body now stamp st)"
| "handle s (On_delete_message messageId) st = Inr (delete_message s messageId st)"
| "handle s (On_draw_data data) st = Inr (draw_data s data st)"
| "handle s On_clear_canvas st = Inr (clear_canvas s st)"
| "handle s (On_toggle_draw enabled) st = Inr (toggle_draw s enabled st)"
| "handle s (On_set_user_draw t cd) st = Inr (set_user_draw s t cd st)"
| "handle s (On_kick_user t) st = Inr (kick_user s t st)"
| "handle s (On_stream_status active) st = Inr (stream_status s active st)"

text \<open>
  The server processes one event at a time: a new socket connects, a connected socket
  sends a request, or a socket closes. Socket.IO gives a socket a fresh id of twenty random
  characters, which is not the empty string and is taken never to be one of
  \<open>reserved_keys\<close>; a connection under such an id is not part of a run. A request of a
  socket that is not connected is not dispatched.
\<close>

datatype event = Connection sid | Request sid request | Close sid

fun step :: "server \<Rightarrow> event \<Rightarrow> error + server \<times> effect list" where
  "step st (Connection s) =
     Inr (if s = [] \<or> s \<in> set reserved_keys \<or> s \<in> sockets st then st
          else st\<lparr>sockets := insert s (sockets st)\<rparr>, [])"
| "step st (Request s r) = (if s \<in> sockets st then handle s r st else Inr (st, []))"
| "step st (Close s) = Inr (close_socket s st)"

text \<open>A run of the server; an uncaught exception ends it.\<close>

fun exec :: "server \<Rightarrow> event list \<Rightarrow> error + server" where
  "exec st [] = Inr st"
| "exec st (e # es) = (case step st e of Inl err \<Rightarrow> Inl err | Inr (st', effs) \<Rightarrow> exec st' es)"

subsection \<open>Notions the properties are stated with\<close>

text \<open>The connections of the registry whose role is \<^verbatim>\<open>'admin'\<close>.\<close>

definition owners :: "server \<Rightarrow> (sid \<times> user) list" where
  "owners st = filter (\<lambda>(i, u). role u = Admin) (users st)"

text \<open>The test \<^verbatim>\<open>user && user.role === 'admin'\<close> of the owner-only handlers.\<close>

definition is_admin :: "server \<Rightarrow> sid \<Rightarrow> bool" where
  "is_admin st s = (case map_of (users st) s of None \<Rightarrow> False | Some u \<Rightarrow> role u = Admin)"

text \<open>The authorisation of a draw event as the specification words it.\<close>

definition may_draw :: "server \<Rightarrow> user \<Rightarrow> bool" where
  "may_draw st u \<longleftrightarrow> role u = Admin \<or> (drawingEnabled st \<and> canDraw u)"

text \<open>The owner-only requests.\<close>

fun owner_only :: "request \<Rightarrow> bool" where
  "owner_only (On_delete_message messageId) = True"
| "owner_only On_clear_canvas = True"
| "owner_only (On_toggle_draw enabled) = True"
| "owner_only (On_set_user_draw t cd) = True"
| "owner_only (On_kick_user t) = True"
| "owner_only r = False"

text \<open>
  The peer handles of the registry, one for each connection that is registered with one,
  in the order of the registry.
\<close>

fun peer_handle :: "sid \<times> user \<Rightarrow> string list" where
  "peer_handle (i, u) = (case peerId u of None \<Rightarrow> [] | Some p \<Rightarrow> [p])"

definition peer_handles :: "server \<Rightarrow> string list" where
  "peer_handles st = concat (map peer_handle (users st))"

subsection \<open>A classroom with two connections\<close>

text \<open>
  Ann connects as \<open>''a''\<close> and joins with the admin code, Bo connects as \<open>''b''\<close> and
  joins; \<open>room_ab\<close> is the state after that, \<open>room_call\<close> the state once both have
  announced a peer, \<open>room_a\<close> the state once Bo's socket has closed.
\<close>

definition ann :: user where
  "ann = \<lparr>name = ''Ann'', role = Admin, streamActive = False, canDraw = True,
          inVideoCall = False, peerId = None\<rparr>"

definition bo :: user where
  "bo = \<lparr>name = ''Bo'', role = Student, streamActive = False, canDraw = True,
         inVideoCall = False, peerId = None\<rparr>"

definition joins_ab :: "event list" where
  "joins_ab = [Connection ''a'', Request ''a'' (On_join_room ''Ann'' (Some ''teach123'')),
               Connection ''b'', Request ''b'' (On_join_room ''Bo'' (Some ''teach123''))]"

definition room_ab :: server where
  "room_ab = \<lparr>admin = Some ''a'', users = [(''a'', ann), (''b'', bo)], chat = [],
              drawingEnabled = True, adminCode = ''teach123'',
              sockets = {''b'', ''a''}, classroom = {''b'', ''a''}, proto_canDraw = None\<rparr>"

definition room_call :: server where
  "room_call = room_ab\<lparr>users := [(''a'', ann\<lparr>inVideoCall := True, peerId := Some ''p1''\<rparr>),
                                  (''b'', bo\<lparr>inVideoCall := True, peerId := Some ''p2''\<rparr>)]\<rparr>"

definition room_a :: server where
  "room_a = room_ab\<lparr>users := [(''a'', ann)], sockets := {''a''}, classroom := {''a''}\<rparr>"

subsection \<open>The invariant of the reachable states\<close>

text \<open>
  No socket has the empty id and \<open>admin\<close> is never the empty string (so that
  \<^verbatim>\<open>!appState.admin\<close> means \<open>admin = None\<close>); a registry entry with role admin is the
  one \<open>admin\<close> names; every registered connection is in the room, every member of the
  room is connected; the registry has one entry per key.
\<close>

definition wf :: "server \<Rightarrow> bool" where
  "wf st \<longleftrightarrow>
     [] \<notin> sockets st \<and>
     (\<forall>a. admin st = Some a \<longrightarrow> a \<noteq> []) \<and>
     (\<forall>i u. map_of (users st) i = Some u \<longrightarrow> role u = Admin \<longrightarrow> admin st = Some i) \<and>
     (\<forall>i u. map_of (users st) i = Some u \<longrightarrow> i \<in> classroom st) \<and>
     distinct (map fst (users st)) \<and>
     classroom st \<subseteq> sockets st"

section \<open>Proofs\<close>

lemmas alist_simps =
  AList.update_conv' AList.delete_conv' AList.distinct_update AList.distinct_delete

lemmas emit_defs = socket_emit_def socket_to_def io_to_def

lemmas handler_defs = join_room_def set_admin_def peer_ready_def peer_left_def peer_joined_def
  disconnect_def close_socket_def leave_session_def chat_message_def delete_message_def
  draw_data_def clear_canvas_def toggle_draw_def set_user_draw_def kick_user_def
  stream_status_def reset_def socket_emit_def socket_to_def io_to_def Let_def

lemmas room_defs = init_def ann_def bo_def joins_ab_def room_ab_def room_call_def room_a_def
  reserved_keys_def object_prototype_keys_def

lemma received_append: "received c (xs @ ys) = received c xs @ received c ys"
  by (induction c xs rule: received.induct) auto

subsection \<open>Every step keeps the invariant\<close>

lemma wf_init: "wf init"
  by (simp add: wf_def init_def)

lemma wf_join_room: "wf st \<Longrightarrow> s \<in> sockets st \<Longrightarrow> wf (fst (join_room s nm code st))"
  unfolding wf_def join_room_def Let_def
  by (auto simp: alist_simps simp del: map_of_eq_Some_iff split: if_splits)

lemma wf_set_admin:
  "wf st \<Longrightarrow> s \<in> sockets st \<Longrightarrow> set_admin s code st = Inr (st', effs) \<Longrightarrow> wf st'"
  unfolding wf_def set_admin_def Let_def
  by (auto simp: alist_simps simp del: map_of_eq_Some_iff split: if_splits option.splits)

lemma wf_peer_ready: "wf st \<Longrightarrow> wf (fst (peer_ready s p st))"
  unfolding wf_def peer_ready_def Let_def
  by (auto simp: alist_simps simp del: map_of_eq_Some_iff split: if_splits option.splits)

lemma wf_peer_left: "wf st \<Longrightarrow> wf (fst (peer_left s p st))"
  unfolding wf_def peer_left_def Let_def
  by (auto simp: alist_simps simp del: map_of_eq_Some_iff split: if_splits option.splits)

lemma wf_peer_joined: "wf st \<Longrightarrow> wf (fst (peer_joined s p n r st))"
  unfolding wf_def peer_joined_def Let_def
  by (auto simp: alist_simps simp del: map_of_eq_Some_iff split: if_splits option.splits)

lemma wf_close_socket: "wf st \<Longrightarrow> wf (fst (close_socket s st))"
  unfolding wf_def close_socket_def disconnect_def Let_def reset_def
  by (auto simp: alist_simps simp del: map_of_eq_Some_iff split: if_splits option.splits)

lemma wf_reset: "wf st \<Longrightarrow> wf (reset st)"
  by (simp add: wf_def reset_def)

lemma wf_delete: "wf st \<Longrightarrow> wf (st\<lparr>users := AList.delete s (users st)\<rparr>)"
  unfolding wf_def
  by (auto simp: alist_simps simp del: map_of_eq_Some_iff split: if_splits)

lemma wf_leave_session: "wf st \<Longrightarrow> wf (fst (leave_session s st))"
  unfolding leave_session_def Let_def
  by (auto simp: wf_reset wf_delete wf_close_socket split: option.splits prod.splits
      dest!: arg_cong[where f=fst])

lemma wf_chat_message: "wf st \<Longrightarrow> wf (fst (chat_message s b n t st))"
  unfolding wf_def chat_message_def Let_def
  by (auto simp: alist_simps simp del: map_of_eq_Some_iff split: if_splits option.splits)

lemma wf_delete_message: "wf st \<Longrightarrow> wf (fst (delete_message s m st))"
  unfolding wf_def delete_message_def Let_def
  by (auto simp: alist_simps simp del: map_of_eq_Some_iff split: if_splits option.splits)

lemma wf_draw_data: "wf st \<Longrightarrow> wf (fst (draw_data s d st))"
  unfolding draw_data_def by (auto split: option.splits)

lemma wf_clear_canvas: "wf st \<Longrightarrow> wf (fst (clear_canvas s st))"
  unfolding clear_canvas_def by (auto split: option.splits)

lemma wf_toggle_draw: "wf st \<Longrightarrow> wf (fst (toggle_draw s e st))"
  unfolding wf_def toggle_draw_def by (auto split: option.splits)

lemma wf_canDraw:
  assumes "wf st" and "map_of (users st) t = Some v"
  shows "wf (st\<lparr>users := AList.update t (v\<lparr>canDraw := c\<rparr>) (users st)\<rparr>)"
proof -
  have "role (v\<lparr>canDraw := c\<rparr>) = Admin \<Longrightarrow> admin st = Some t"
    using assms by (simp add: wf_def del: map_of_eq_Some_iff)
  moreover have "t \<in> classroom st"
    using assms by (simp add: wf_def del: map_of_eq_Some_iff)
  ultimately show ?thesis
    using assms(1) unfolding wf_def
    by (simp add: alist_simps del: map_of_eq_Some_iff)
qed

lemma wf_proto: "wf st \<Longrightarrow> wf (st\<lparr>proto_canDraw := b\<rparr>)"
  by (simp add: wf_def)

lemma wf_set_user_draw: "wf st \<Longrightarrow> wf (fst (set_user_draw s t c st))"
  unfolding set_user_draw_def Let_def
  by (simp add: wf_canDraw wf_proto split: option.splits)

lemma wf_kick_user: "wf st \<Longrightarrow> wf (fst (kick_user s t st))"
  unfolding kick_user_def
  by (auto simp: wf_delete split: if_splits option.splits)

lemma wf_stream_status: "wf st \<Longrightarrow> wf (fst (stream_status s a st))"
  unfolding wf_def stream_status_def Let_def
  by (auto simp: alist_simps simp del: map_of_eq_Some_iff split: if_splits option.splits)

lemma wf_handle: "wf st \<Longrightarrow> s \<in> sockets st \<Longrightarrow> handle s r st = Inr (st', effs) \<Longrightarrow> wf st'"
proof (cases r)
  case (On_set_admin code)
  assume "wf st" "s \<in> sockets st" "handle s r st = Inr (st', effs)"
  with On_set_admin show ?thesis by (simp add: wf_set_admin)
qed (auto dest!: arg_cong[where f=fst]
      simp: wf_join_room wf_peer_ready wf_peer_left wf_peer_joined wf_leave_session
        wf_chat_message wf_delete_message wf_draw_data wf_clear_canvas wf_toggle_draw
        wf_set_user_draw wf_kick_user wf_stream_status)

lemma wf_step: "wf st \<Longrightarrow> step st ev = Inr (st', effs) \<Longrightarrow> wf st'"
proof (cases ev)
  case (Connection s)
  assume "wf st" "step st ev = Inr (st', effs)"
  with Connection show ?thesis
    by (auto simp: wf_def simp del: map_of_eq_Some_iff split: if_splits)
next
  case (Request s r)
  assume "wf st" "step st ev = Inr (st', effs)"
  with Request show ?thesis by (auto simp: wf_handle split: if_splits)
next
  case (Close s)
  assume "wf st" "step st ev = Inr (st', effs)"
  with Close show ?thesis by (auto dest!: arg_cong[where f=fst] simp: wf_close_socket)
qed

lemma wf_exec: "wf st \<Longrightarrow> exec st evs = Inr st' \<Longrightarrow> wf st'"
proof (induction evs arbitrary: st)
  case Nil
  then show ?case by simp
next
  case (Cons e es)
  then show ?case by (auto split: sum.splits dest: wf_step)
qed

lemma filter_single_key:
  "distinct (map fst xs) \<Longrightarrow> \<forall>(i, u) \<in> set xs. P u \<longrightarrow> i = a \<Longrightarrow>
   length (filter (\<lambda>(i, u). P u) xs) \<le> 1"
proof (induction xs)
  case Nil
  then show ?case by simp
next
  case (Cons x xs)
  obtain k v where x: "x = (k, v)" by (cases x)
  show ?case
  proof (cases "P v")
    case True
    with Cons.prems x have "k = a" by simp
    with Cons.prems x have "\<forall>(i, u) \<in> set xs. \<not> P u" by force
    then have "filter (\<lambda>(i, u). P u) xs = []" by (auto simp: filter_empty_conv)
    with x True show ?thesis by simp
  next
    case False
    with Cons x show ?thesis by simp
  qed
qed

lemma wf_owners: "wf st \<Longrightarrow> length (owners st) \<le> 1"
proof -
  assume w: "wf st"
  show ?thesis
  proof (cases "admin st")
    case None
    with w have "\<forall>(i, u) \<in> set (users st). role u = Admin \<longrightarrow> i = []"
      by (auto simp: wf_def)
    with w show ?thesis
      unfolding owners_def by (intro filter_single_key) (auto simp: wf_def)
  next
    case (Some a)
    with w have "\<forall>(i, u) \<in> set (users st). role u = Admin \<longrightarrow> i = a"
      by (auto simp: wf_def)
    with w show ?thesis
      unfolding owners_def by (intro filter_single_key) (auto simp: wf_def)
  qed
qed

lemma owners_admin: "wf st \<Longrightarrow> owners st \<noteq> [] \<Longrightarrow> truthy (admin st)"
  unfolding owners_def wf_def by (auto simp: filter_empty_conv)

subsection \<open>The owner role\<close>

text \<open>
  C1. After every sequence of events the server survives, at most one connection of the
  registry has role admin; and when one has, a \<^verbatim>\<open>join_room\<close> presenting the right
  admin code is entered with role student and leaves \<open>admin\<close> as it was.
\<close>

theorem at_most_one_owner:
  assumes "exec init evs = Inr st"
  shows "length (owners st) \<le> 1 \<and>
         (owners st \<noteq> [] \<longrightarrow>
            (\<forall>s nm. map_of (users (fst (join_room s nm (Some (adminCode st)) st))) s =
                      Some \<lparr>name = nm, role = Student, streamActive = False, canDraw = True,
                            inVideoCall = False, peerId = None\<rparr> \<and>
                    admin (fst (join_room s nm (Some (adminCode st)) st)) = admin st))"
proof -
  have w: "wf st" using wf_init assms by (rule wf_exec)
  show ?thesis
    using wf_owners[OF w] owners_admin[OF w]
    by (auto simp: join_room_def Let_def AList.update_conv')
qed

theorem at_most_one_owner_witness:
  "exec init joins_ab = Inr room_ab \<and> length (owners room_ab) \<le> 1 \<and> owners room_ab \<noteq> [] \<and>
   map_of (users (fst (join_room ''c'' ''Cy'' (Some ''teach123'') room_ab))) ''c'' =
     Some \<lparr>name = ''Cy'', role = Student, streamActive = False, canDraw = True,
           inVideoCall = False, peerId = None\<rparr>"
  using at_most_one_owner [of joins_ab room_ab]
  by (simp add: room_defs handler_defs owners_def)

text \<open>
  C2. When a connection with role admin closes or leaves, in a reachable state, the
  registry and the chat log are empty afterwards, drawing is enabled, \<open>admin\<close> is unset,
  and every other connection of the registry receives \<^verbatim>\<open>session_ended\<close>.
\<close>

theorem owner_termination_resets:
  assumes "exec init evs = Inr st"
    and "is_admin st s"
    and "ev = Close s \<or> ev = Request s On_leave_session"
  shows "case step st ev of
           Inl err \<Rightarrow> False
         | Inr (st', effs) \<Rightarrow>
             users st' = [] \<and> chat st' = [] \<and> drawingEnabled st' = True \<and> admin st' = None \<and>
             (\<forall>c \<in> fst ` set (users st) - {s}.
                Session_ended ''Admin left the session'' \<in> set (received c effs))"
proof -
  have w: "wf st" using wf_init assms(1) by (rule wf_exec)
  from assms(2) obtain u where u: "map_of (users st) s = Some u" "role u = Admin"
    by (auto simp: is_admin_def split: option.splits)
  from w u have s: "s \<in> classroom st" "s \<in> sockets st"
    by (auto simp: wf_def simp del: map_of_eq_Some_iff)
  have room: "c \<in> classroom st" if "c \<in> fst ` set (users st)" for c
    using w that unfolding wf_def by fastforce
  from assms(3) show ?thesis
  proof
    assume "ev = Close s"
    with u s room show ?thesis
      by (auto simp: handler_defs received_append split: option.splits)
  next
    assume "ev = Request s On_leave_session"
    with u s room show ?thesis
      by (auto simp: handler_defs received_append split: option.splits)
  qed
qed

theorem owner_termination_resets_witness:
  "exec init joins_ab = Inr room_ab \<and> is_admin room_ab ''a'' \<and>
   step room_ab (Close ''a'') =
     Inr (\<lparr>admin = None, users = [], chat = [], drawingEnabled = True,
           adminCode = ''teach123'', sockets = {''b''}, classroom = {''b''},
           proto_canDraw = None\<rparr>,
          [Emit {''b''} (Session_ended ''Admin left the session'')]) \<and>
   ''b'' \<in> fst ` set (users room_ab) - {''a''} \<and>
   received ''b'' [Emit {''b''} (Session_ended ''Admin left the session'')] =
     [Session_ended ''Admin left the session'']"
  using owner_termination_resets [of joins_ab room_ab "''a''" "Close ''a''"]
  by (simp add: room_defs handler_defs is_admin_def insert_Diff_if)

subsection \<open>Authorisation\<close>

text \<open>
  C3. A draw event of a joined connection is forwarded, with the sender's id in the
  payload, to the members of the room other than the sender exactly when the sender is
  the admin or drawing is enabled and the sender may draw; otherwise nothing is sent. The
  state is unchanged in either case. The admin's event is forwarded whatever the flags
  are, and the event of a student who may not draw is never forwarded.
\<close>

theorem draw_data_authorization:
  assumes "map_of (users st) s = Some u"
  shows "draw_data s data st =
           (st, if may_draw st u
                then [Emit (classroom st - {s}) (Draw_data (AList.update ''userId'' s data))]
                else []) \<and>
         (may_draw st u \<longrightarrow>
            (\<forall>c. received c (snd (draw_data s data st)) =
                   (if c \<in> classroom st \<and> c \<noteq> s
                    then [Draw_data (AList.update ''userId'' s data)] else []))) \<and>
         (role u = Admin \<longrightarrow>
            snd (draw_data s data st) =
              [Emit (classroom st - {s}) (Draw_data (AList.update ''userId'' s data))]) \<and>
         (role u \<noteq> Admin \<and> \<not> canDraw u \<longrightarrow> snd (draw_data s data st) = [])"
  using assms by (auto simp: draw_data_def may_draw_def emit_defs)

theorem draw_data_authorization_witness:
  "map_of (users (room_ab\<lparr>drawingEnabled := False\<rparr>)) ''a'' = Some ann \<and>
   role ann = Admin \<and>
   draw_data ''a'' [(''x'', ''1'')] (room_ab\<lparr>drawingEnabled := False\<rparr>) =
     (room_ab\<lparr>drawingEnabled := False\<rparr>,
      [Emit {''b''} (Draw_data [(''x'', ''1''), (''userId'', ''a'')])]) \<and>
   map_of (users (room_ab\<lparr>users := [(''a'', ann), (''b'', bo\<lparr>canDraw := False\<rparr>)]\<rparr>)) ''b'' =
     Some (bo\<lparr>canDraw := False\<rparr>) \<and>
   draw_data ''b'' [(''x'', ''1'')] (room_ab\<lparr>users := [(''a'', ann), (''b'', bo\<lparr>canDraw := False\<rparr>)]\<rparr>) =
     (room_ab\<lparr>users := [(''a'', ann), (''b'', bo\<lparr>canDraw := False\<rparr>)]\<rparr>, [])"
  using draw_data_authorization [of "room_ab\<lparr>drawingEnabled := False\<rparr>" "''a''" ann "[(''x'', ''1'')]"]
    draw_data_authorization [of "room_ab\<lparr>users := [(''a'', ann), (''b'', bo\<lparr>canDraw := False\<rparr>)]\<rparr>"
      "''b''" "bo\<lparr>canDraw := False\<rparr>" "[(''x'', ''1'')]"]
  by (simp add: room_defs may_draw_def insert_Diff_if)

text \<open>
  C4. An owner-only request (delete a message, clear the canvas, toggle drawing, set a
  user's draw permission, kick) of a socket that is not registered with role admin leaves
  the whole state as it is and sends nothing.
\<close>

theorem non_owner_denied:
  assumes "owner_only r" and "\<not> is_admin st s"
  shows "handle s r st = Inr (st, [])"
  using assms by (cases r) (auto simp: is_admin_def handler_defs split: option.splits)

theorem non_owner_denied_witness:
  "owner_only (On_kick_user ''a'') \<and> \<not> is_admin room_ab ''b'' \<and>
   handle ''b'' (On_kick_user ''a'') room_ab = Inr (room_ab, [])"
  using non_owner_denied [of "On_kick_user ''a''" room_ab "''b''"]
  by (simp add: room_defs is_admin_def)

subsection \<open>Chat\<close>

text \<open>What \<^verbatim>\<open>chat_message\<close> does to the log: the new message goes to the end.\<close>

lemma chat_message_appends:
  "map_of (users st) s = Some u \<Longrightarrow>
   chat (fst (chat_message s body now stamp st)) =
     chat st @ [\<lparr>msg_id = toString now, userId = s, username = name u, message = body,
                 timestamp = stamp, msg_role = role u\<rparr>]"
  by (simp add: chat_message_def Let_def)

text \<open>
  C5. The claim is that the ids of the chat log are pairwise distinct. The id of a message
  is the clock value of the moment it is handled, so two messages handled within the same
  millisecond get the same id: after this run the log holds two messages with the id
  \<open>''1700000000000''\<close>.
\<close>

theorem chat_ids_collide:
  "exec init [Connection ''a'', Request ''a'' (On_join_room ''Ann'' None),
              Request ''a'' (On_chat_message ''hi'' 1700000000000 ''2023-11-14T22:13:20.000Z''),
              Request ''a'' (On_chat_message ''yo'' 1700000000000 ''2023-11-14T22:13:20.000Z'')] =
     Inr \<lparr>admin = None, users = [(''a'', ann\<lparr>role := Student\<rparr>)],
           chat = [\<lparr>msg_id = ''1700000000000'', userId = ''a'', username = ''Ann'',
                    message = ''hi'', timestamp = ''2023-11-14T22:13:20.000Z'',
                    msg_role = Student\<rparr>,
                   \<lparr>msg_id = ''1700000000000'', userId = ''a'', username = ''Ann'',
                    message = ''yo'', timestamp = ''2023-11-14T22:13:20.000Z'',
                    msg_role = Student\<rparr>],
           drawingEnabled = True, adminCode = ''teach123'',
           sockets = {''a''}, classroom = {''a''}, proto_canDraw = None\<rparr>"
  by (simp add: room_defs handler_defs toString.simps digit_char_def)

subsection \<open>Targets that are gone\<close>






text \<open>
  A target that is no id of a connection but a name \<^verbatim>\<open>appState.users\<close> inherits is
  found by both handlers: the kick of \<^verbatim>\<open>constructor\<close> announces \<^verbatim>\<open>user_left\<close>, and
  \<^verbatim>\<open>set_user_draw\<close> of \<^verbatim>\<open>__proto__\<close> creates \<^verbatim>\<open>Object.prototype.canDraw\<close>, after
  which \<^verbatim>\<open>canDraw\<close> is such a name too.
\<close>

lemma inherited_targets:
  "kick_user ''a'' ''constructor'' room_a =
     (room_a, [Emit {''a''} (User_left ''constructor'')]) \<and>
   set_user_draw ''a'' ''__proto__'' True room_a =
     (room_a\<lparr>proto_canDraw := Some True\<rparr>,
      [Emit {''a''} (User_updated_inherited ''__proto__'')]) \<and>
   set_user_draw ''a'' ''canDraw'' False room_a = (room_a, []) \<and>
   set_user_draw ''a'' ''canDraw'' False (room_a\<lparr>proto_canDraw := Some True\<rparr>) =
     (room_a\<lparr>proto_canDraw := Some True\<rparr>,
      [Emit {''a''} (User_updated_inherited ''canDraw'')])"
  by (simp add: room_defs handler_defs inherited_def)

subsection \<open>Peer handles\<close>

text \<open>
  C7. A \<^verbatim>\<open>peer_ready\<close> of a connection that presents the handle the connection is
  registered with changes nothing and sends nothing.
\<close>

theorem peer_ready_idempotent:
  assumes "map_of (users st) s = Some u" and "peerId u = Some h"
  shows "handle s (On_peer_ready h) st = Inr (st, [])"
  using assms by (simp add: peer_ready_def)

theorem peer_ready_idempotent_witness:
  "map_of (users room_call) ''b'' = Some (bo\<lparr>inVideoCall := True, peerId := Some ''p2''\<rparr>) \<and>
   peerId (bo\<lparr>inVideoCall := True, peerId := Some ''p2''\<rparr>) = Some ''p2'' \<and>
   handle ''b'' (On_peer_ready ''p2'') room_call = Inr (room_call, [])"
  using peer_ready_idempotent [of room_call "''b''"
      "bo\<lparr>inVideoCall := True, peerId := Some ''p2''\<rparr>" "''p2''"]
  by (simp add: room_defs)

text \<open>
  C10. A \<^verbatim>\<open>peer_ready\<close> of a connection registered with \<open>h1\<close> that presents another
  handle \<open>h2\<close> stores \<open>h2\<close> for the connection, answers the caller with the peer list
  and announces \<^verbatim>\<open>peer_joined\<close> for \<open>h2\<close> to the others; nobody receives a
  \<^verbatim>\<open>peer_left\<close> for \<open>h1\<close>.
\<close>

theorem peer_ready_replaces:
  assumes "map_of (users st) s = Some u" and "peerId u = Some h1" and "h2 \<noteq> h1"
  shows "map_of (users (fst (peer_ready s h2 st))) s =
           Some (u\<lparr>inVideoCall := True, peerId := Some h2\<rparr>) \<and>
         snd (peer_ready s h2 st) =
           [Emit {s} (Peers_in_room
              (concat (map (peer_entry s h2) (users (fst (peer_ready s h2 st)))))),
            Emit (classroom st - {s}) (Peer_joined h2 (name u) (role_str (role u)))] \<and>
         (\<forall>c. Peer_left h1 \<notin> set (received c (snd (peer_ready s h2 st))))"
  using assms by (auto simp: peer_ready_def Let_def emit_defs AList.update_conv')

theorem peer_ready_replaces_witness:
  "map_of (users room_call) ''b'' = Some (bo\<lparr>inVideoCall := True, peerId := Some ''p2''\<rparr>) \<and>
   peerId (bo\<lparr>inVideoCall := True, peerId := Some ''p2''\<rparr>) = Some ''p2'' \<and> ''p3'' \<noteq> ''p2'' \<and>
   peer_ready ''b'' ''p3'' room_call =
     (room_call\<lparr>users := [(''a'', ann\<lparr>inVideoCall := True, peerId := Some ''p1''\<rparr>),
                           (''b'', bo\<lparr>inVideoCall := True, peerId := Some ''p3''\<rparr>)]\<rparr>,
      [Emit {''b''} (Peers_in_room [(''p1'', ''Ann'', ''admin'')]),
       Emit {''a''} (Peer_joined ''p3'' ''Bo'' ''student'')]) \<and>
   Peer_left ''p2'' \<notin> set (received ''a'' (snd (peer_ready ''b'' ''p3'' room_call)))"
  using peer_ready_replaces [of room_call "''b''"
      "bo\<lparr>inVideoCall := True, peerId := Some ''p2''\<rparr>" "''p2''" "''p3''"]
  by (simp add: room_defs handler_defs insert_Diff_if)

text \<open>
  C9. The claim is that a \<^verbatim>\<open>peer_left\<close> for the handle of a terminating connection
  goes out before the notice of the termination. The \<^verbatim>\<open>disconnect\<close> handler does
  that; \<^verbatim>\<open>leave_session\<close> deletes the entry itself, so the \<^verbatim>\<open>disconnect\<close> handler
  it triggers finds no user, and no \<^verbatim>\<open>peer_left\<close> is sent at all. Bo, registered
  with \<open>''p2''\<close>, closes in the first equation and leaves in the second.
\<close>

theorem leave_session_skips_peer_left:
  "step room_call (Close ''b'') =
     Inr (room_a\<lparr>users := [(''a'', ann\<lparr>inVideoCall := True, peerId := Some ''p1''\<rparr>)]\<rparr>,
          [Emit {''a''} (Peer_left ''p2''), Emit {''a''} (User_left ''b'')]) \<and>
   step room_call (Request ''b'' On_leave_session) =
     Inr (room_a\<lparr>users := [(''a'', ann\<lparr>inVideoCall := True, peerId := Some ''p1''\<rparr>)]\<rparr>,
          [Emit {''a''} (User_left ''b'')])"
  by (simp add: room_defs handler_defs insert_Diff_if)

text \<open>
  C8. The claim is that no two distinct connections are registered with the same peer
  handle. \<^verbatim>\<open>peer_ready\<close> compares the presented handle with the caller's own handle
  only, and the clean-up of duplicate peer ids of different users that the comment above
  the \<^verbatim>\<open>peer_left\<close> handler announces is in no handler: Ann and Bo both announce the
  handle \<open>''p1''\<close>, and both are registered with it, so the list of registered handles
  has it twice.
\<close>

theorem peer_handle_shared:
  "exec init (joins_ab @ [Request ''a'' (On_peer_ready ''p1''),
                          Request ''b'' (On_peer_ready ''p1'')]) =
     Inr (room_ab\<lparr>users := [(''a'', ann\<lparr>inVideoCall := True, peerId := Some ''p1''\<rparr>),
                            (''b'', bo\<lparr>inVideoCall := True, peerId := Some ''p1''\<rparr>)]\<rparr>) \<and>
   peer_handles (room_ab\<lparr>users := [(''a'', ann\<lparr>inVideoCall := True, peerId := Some ''p1''\<rparr>),
                                   (''b'', bo\<lparr>inVideoCall := True, peerId := Some ''p1''\<rparr>)]\<rparr>) =
     [''p1'', ''p1'']"
  by (simp add: room_defs handler_defs peer_handles_def)

end
